theory Spec2Isabelle
  imports Complex_Main "HOL-Library.Char_ord" "HOL-Library.List_Lexorder"
begin

section \<open>Python strings\<close>

text \<open>
  Titles, codes and categories are Python \<open>str\<close> values, modelled as \<open>string\<close> over the
  ASCII range: \<open>lower\<close> folds the letters A..Z, and the white space removed by
  \<open>str.strip()\<close> is the ASCII white space of Python 3 (tab, line feed, vertical tab,
  form feed, carriage return, the four separators 0x1C..0x1F and the blank).
\<close>

definition lower_char :: "char \<Rightarrow> char" where
  "lower_char c =
     (case map_of (zip ''ABCDEFGHIJKLMNOPQRSTUVWXYZ'' ''abcdefghijklmnopqrstuvwxyz'') c of
        None \<Rightarrow> c
      | Some d \<Rightarrow> d)"

definition lower :: "string \<Rightarrow> string" where
  "lower s = map lower_char s"

definition is_space :: "char \<Rightarrow> bool" where
  "is_space c = (c \<in> set [CHR 0x09, CHR 0x0A, CHR 0x0B, CHR 0x0C, CHR 0x0D,
                           CHR 0x1C, CHR 0x1D, CHR 0x1E, CHR 0x1F, CHR '' ''])"

definition strip :: "string \<Rightarrow> string" where
  "strip s = rev (dropWhile is_space (rev (dropWhile is_space s)))"

definition startswith :: "string \<Rightarrow> string \<Rightarrow> bool" where
  "startswith s p = (take (length p) s = p)"

definition endswith :: "string \<Rightarrow> string \<Rightarrow> bool" where
  "endswith s suf = (length suf \<le> length s \<and> drop (length s - length suf) s = suf)"

text \<open>\<open>contains s sub\<close> is Python's \<open>sub in s\<close> on strings.\<close>

fun contains :: "string \<Rightarrow> string \<Rightarrow> bool" where
  "contains [] sub = (sub = [])"
| "contains (c # cs) sub = (startswith (c # cs) sub \<or> contains cs sub)"

section \<open>Risk scorer (bls\_job\_mapper.py)\<close>

text \<open>
  The risk scores are Python floats written as \<open>30.0\<close>, \<open>55.0\<close> and so on: each is an
  integer-valued constant that the code only compares with the integer thresholds
  30, 50 and 70 and never computes with, so they are carried as the reals they denote.
  A category is \<open>Some c\<close> for a \<open>str\<close> and \<open>None\<close> for Python's \<open>None\<close>, which
  \<open>get_complete_job_data\<close> passes on when a stored row has no category.
\<close>

definition generic_risk_factors :: "string list" where
  "generic_risk_factors =
    [''Routine data processing tasks can be automated'',
         ''Predictable decision-making components can be handled by AI'',
         ''Standardized documentation and reporting can be automated'',
         ''Basic customer interactions can be managed by AI systems'']"

definition category_risk_factors :: "(string \<times> string list) list" where
  "category_risk_factors =
    [(''Computer and Mathematical'',
           [''Code generation AI can produce routine programming solutions'',
            ''Automated testing and debugging reduces manual work'',
            ''Basic website and application development increasingly automated'',
            ''Technical documentation can be generated by AI'']),
         (''Management'',
           [''AI tools can handle resource allocation and scheduling'',
            ''Performance monitoring and reporting can be automated'',
            ''Basic project tracking requires less human oversight'',
            ''Standard communication can be drafted by AI'']),
         (''Business and Financial'',
           [''Financial analysis and modeling increasingly automated'',
            ''Transaction processing and auditing can be handled by AI'',
            ''Market research data collection and basic analysis automated'',
            ''Standard financial reporting can be generated by AI'']),
         (''Legal'',
           [''Document review and contract analysis increasingly automated'',
            ''Legal research can be accelerated with AI assistance'',
            ''Standard legal document generation handled by AI'',
            ''Case outcome prediction becoming more automated'']),
         (''Educational Instruction'',
           [''Basic content delivery can be automated through online platforms'',
            ''Standardized assessment and grading increasingly automated'',
            ''Administrative tasks can be handled by AI systems'',
            ''Some tutoring functions can be performed by AI'']),
         (''Healthcare Practitioners'',
           [''Administrative tasks and documentation increasingly automated'',
            ''Basic diagnostic assistance provided by AI'',
            ''Patient scheduling and management can be automated'',
            ''Some monitoring functions can be performed by AI systems''])]"

definition dict_get_str :: "(string \<times> 'v) list \<Rightarrow> string option \<Rightarrow> 'v \<Rightarrow> 'v" where
  "dict_get_str d k dflt =
     (case k of None \<Rightarrow> dflt
      | Some s \<Rightarrow> (case map_of d s of None \<Rightarrow> dflt | Some v \<Rightarrow> v))"

definition generate_risk_factors :: "string \<Rightarrow> string option \<Rightarrow> string list" where
  "generate_risk_factors job_title job_category =
     (let specific_factors = dict_get_str category_risk_factors job_category [];
          risk_factors = specific_factors @ generic_risk_factors
      in take (min 5 (length risk_factors)) risk_factors)"

definition generic_protective_factors :: "string list" where
  "generic_protective_factors =
    [''Complex decision-making in ambiguous situations'',
         ''Creative problem-solving in unpredictable environments'',
         ''Building relationships and emotional intelligence'',
         ''Adaptability to changing circumstances and requirements'']"

definition category_protective_factors :: "(string \<times> string list) list" where
  "category_protective_factors =
    [(''Computer and Mathematical'',
           [''Advanced systems architecture and design'',
            ''Novel algorithm development and implementation'',
            ''Complex integration of disparate technologies'',
            ''Innovative problem-solving in unique technical contexts'']),
         (''Management'',
           [''Strategic leadership and organizational vision'',
            ''Complex stakeholder relationship management'',
            ''Change management in ambiguous environments'',
            ''Cultivating team culture and interpersonal dynamics'']),
         (''Business and Financial'',
           [''Complex strategic financial planning'',
            ''Contextual business judgment requiring broad knowledge'',
            ''Negotiation and persuasion in high-stakes situations'',
            ''Novel market opportunity identification'']),
         (''Legal'',
           [''Complex legal strategy development'',
            ''Persuasive courtroom advocacy'',
            ''Nuanced client counseling in ambiguous situations'',
            ''Novel legal theory development'']),
         (''Educational Instruction'',
           [''Personalized teaching adapted to individual student needs'',
            ''Creating engaging learning environments'',
            ''Mentoring and developing student potential'',
            ''Addressing complex behavioral and learning challenges'']),
         (''Healthcare Practitioners'',
           [''Complex clinical judgment in uncertain situations'',
            ''Empathetic patient care requiring emotional intelligence'',
            ''Physical assessment and intervention skills'',
            ''Integrated treatment planning for complex cases''])]"

definition generate_protective_factors :: "string \<Rightarrow> string option \<Rightarrow> string list" where
  "generate_protective_factors job_title job_category =
     (let specific_factors = dict_get_str category_protective_factors job_category [];
          protective_factors = specific_factors @ generic_protective_factors
      in take (min 5 (length protective_factors)) protective_factors)"

definition category_risk_scores :: "(string \<times> real \<times> real) list" where
  "category_risk_scores =
    [(''Computer and Mathematical'', (30, 50)),
         (''Management'', (25, 45)),
         (''Business and Financial'', (35, 55)),
         (''Architecture and Engineering'', (20, 40)),
         (''Life, Physical, and Social Science'', (15, 35)),
         (''Community and Social Service'', (15, 30)),
         (''Legal'', (25, 45)),
         (''Educational Instruction'', (20, 35)),
         (''Arts, Design, Entertainment, Sports, and Media'', (30, 50)),
         (''Healthcare Practitioners'', (15, 30)),
         (''Healthcare Support'', (20, 40)),
         (''Protective Service'', (15, 30)),
         (''Food Preparation and Serving'', (35, 60)),
         (''Building and Grounds Cleaning and Maintenance'', (30, 55)),
         (''Personal Care and Service'', (25, 45)),
         (''Sales and Related'', (40, 65)),
         (''Office and Administrative Support'', (45, 70)),
         (''Farming, Fishing, and Forestry'', (30, 50)),
         (''Construction and Extraction'', (20, 40)),
         (''Installation, Maintenance, and Repair'', (25, 45)),
         (''Production'', (40, 65)),
         (''Transportation and Material Moving'', (35, 60))]"

definition default_risk :: "real \<times> real" where
  "default_risk = (35, 55)"

text \<open>The \<open>if\<close>/\<open>elif\<close> chain of \<open>calculate_ai_risk\<close> on the 5-year risk.\<close>

definition risk_category_of :: "real \<Rightarrow> string" where
  "risk_category_of year_5_risk =
     (if year_5_risk < 30 then ''Low''
      else if year_5_risk < 50 then ''Moderate''
      else if year_5_risk < 70 then ''High''
      else ''Very High'')"

record risk_data =
  year_1_risk :: real
  year_5_risk :: real
  risk_category :: string
  risk_factors :: "string list"
  protective_factors :: "string list"
  analysis :: string

definition calculate_ai_risk :: "string \<Rightarrow> string option \<Rightarrow> risk_data" where
  "calculate_ai_risk job_title job_category =
     (let (y1, y5) = dict_get_str category_risk_scores job_category default_risk;
          cat = risk_category_of y5;
          rf = generate_risk_factors job_title job_category;
          pf = generate_protective_factors job_title job_category;
          a1 = ''The role of '' @ job_title @ '' faces a '' @ lower cat
                 @ '' risk of AI displacement. '';
          a2 = a1 @ (if cat \<in> set [''Low'', ''Moderate'']
                 then ''While certain routine aspects of the role may be automated, the core functions requiring human judgment, creativity, and interpersonal skills remain difficult to replace with AI. ''
                 else ''Many aspects of this role involve predictable, routine tasks that are increasingly being automated by AI systems. '');
          a3 = a2 @ ''Professionals in this field can increase their resilience by developing skills in areas that complement AI rather than compete with it.''
      in \<lparr>year_1_risk = y1, year_5_risk = y5, risk_category = cat,
          risk_factors = rf, protective_factors = pf, analysis = a3\<rparr>)"

section \<open>Classification table, title normaliser and resolver (bls\_job\_mapper.py)\<close>

text \<open>
  A Python \<open>dict\<close> whose iteration order the code relies on is an association list with
  distinct keys, in insertion order: \<open>map_of\<close> is the lookup and \<open>dict_set\<close> the
  assignment \<open>d[k] = v\<close>, which keeps the position of a key already present.
\<close>

fun dict_set :: "(string \<times> 'v) list \<Rightarrow> string \<Rightarrow> 'v \<Rightarrow> (string \<times> 'v) list" where
  "dict_set [] k v = [(k, v)]"
| "dict_set ((k', v') # d) k v =
     (if k' = k then (k, v) # d else (k', v') # dict_set d k v)"

definition JOB_TITLE_TO_SOC :: "(string \<times> string) list" where
  "JOB_TITLE_TO_SOC =
    [(''software developer'', ''15-1252''),
         (''software engineer'', ''15-1252''),
         (''programmer'', ''15-1251''),
         (''web developer'', ''15-1254''),
         (''registered nurse'', ''29-1141''),
         (''nurse'', ''29-1141''),
         (''teacher'', ''25-2021''),
         (''elementary school teacher'', ''25-2021''),
         (''high school teacher'', ''25-2031''),
         (''lawyer'', ''23-1011''),
         (''attorney'', ''23-1011''),
         (''doctor'', ''29-1221''),
         (''physician'', ''29-1221''),
         (''accountant'', ''13-2011''),
         (''project manager'', ''11-3021''),
         (''product manager'', ''11-2021''),
         (''marketing manager'', ''11-2021''),
         (''retail salesperson'', ''41-2031''),
         (''cashier'', ''41-2011''),
         (''customer service representative'', ''43-4051''),
         (''truck driver'', ''53-3032''),
         (''receptionist'', ''43-4171''),
         (''data scientist'', ''15-2051''),
         (''data analyst'', ''15-2041''),
         (''business analyst'', ''13-1111''),
         (''financial analyst'', ''13-2051''),
         (''human resources specialist'', ''13-1071''),
         (''graphic designer'', ''27-1024''),
         (''police officer'', ''33-3051''),
         (''chef'', ''35-1011''),
         (''cook'', ''35-2014''),
         (''waiter'', ''35-3031''),
         (''waitress'', ''35-3031''),
         (''janitor'', ''37-2011''),
         (''administrative assistant'', ''43-6011''),
         (''executive assistant'', ''43-6011''),
         (''dental hygienist'', ''29-1292''),
         (''electrician'', ''47-2111''),
         (''plumber'', ''47-2152''),
         (''carpenter'', ''47-2031''),
         (''construction worker'', ''47-2061''),
         (''mechanic'', ''49-3023''),
         (''automotive mechanic'', ''49-3023''),
         (''taxi driver'', ''53-3054''),
         (''uber driver'', ''53-3054''),
         (''journalist'', ''27-3023''),
         (''reporter'', ''27-3023''),
         (''writer'', ''27-3042''),
         (''editor'', ''27-3041''),
         (''photographer'', ''27-4021''),
         (''court reporter'', ''23-2011''),
         (''stenographer'', ''23-2011''),
         (''digital court reporter'', ''23-2011''),
         (''travel agent'', ''41-4012'')]"

definition SOC_TO_CATEGORY :: "(string \<times> string) list" where
  "SOC_TO_CATEGORY =
    [(''15-'', ''Computer and Mathematical''),
         (''11-'', ''Management''),
         (''13-'', ''Business and Financial''),
         (''17-'', ''Architecture and Engineering''),
         (''19-'', ''Life, Physical, and Social Science''),
         (''21-'', ''Community and Social Service''),
         (''23-'', ''Legal''),
         (''25-'', ''Educational Instruction''),
         (''27-'', ''Arts, Design, Entertainment, Sports, and Media''),
         (''29-'', ''Healthcare Practitioners''),
         (''31-'', ''Healthcare Support''),
         (''33-'', ''Protective Service''),
         (''35-'', ''Food Preparation and Serving''),
         (''37-'', ''Building and Grounds Cleaning and Maintenance''),
         (''39-'', ''Personal Care and Service''),
         (''41-'', ''Sales and Related''),
         (''43-'', ''Office and Administrative Support''),
         (''45-'', ''Farming, Fishing, and Forestry''),
         (''47-'', ''Construction and Extraction''),
         (''49-'', ''Installation, Maintenance, and Repair''),
         (''51-'', ''Production''),
         (''53-'', ''Transportation and Material Moving'')]"

definition get_job_category :: "string \<Rightarrow> string" where
  "get_job_category occupation_code =
     (case find (\<lambda>(prefix, category). startswith occupation_code prefix) SOC_TO_CATEGORY of
        None \<Rightarrow> ''General''
      | Some (prefix, category) \<Rightarrow> category)"

definition suffixes :: "string list" where
  "suffixes = ['' i'', '' ii'', '' iii'', '' iv'', '' v'', '' specialist'', '' assistant'',
               '' associate'', '' senior'', '' junior'', '' lead'']"

text \<open>The \<open>for\<close> loop with its \<open>break\<close>: the slice \<open>s[:-len(suffix)]\<close> of the first suffix that matches.\<close>

fun strip_first_suffix :: "string list \<Rightarrow> string \<Rightarrow> string" where
  "strip_first_suffix [] s = s"
| "strip_first_suffix (suffix # rest) s =
     (if endswith s suffix then take (length s - length suffix) s
      else strip_first_suffix rest s)"

definition standardize_job_title :: "string \<Rightarrow> string" where
  "standardize_job_title title = strip_first_suffix suffixes (strip (lower title))"

section \<open>Python values and the outside world\<close>

datatype py_error = IndexError | AttributeError | TypeError

text \<open>A decoded JSON document; \<open>JNull\<close> is Python's \<open>None\<close>.\<close>

datatype json =
    JNull
  | JStr string
  | JNum real
  | JList "json list"
  | JObj "(string \<times> json) list"

text \<open>\<open>x.get(k, default)\<close>: only a \<open>dict\<close> has the method.\<close>

fun py_get :: "json \<Rightarrow> string \<Rightarrow> json \<Rightarrow> py_error + json" where
  "py_get (JObj d) k dflt = Inr (case map_of d k of None \<Rightarrow> dflt | Some v \<Rightarrow> v)"
| "py_get _ k dflt = Inl AttributeError"

text \<open>\<open>for x in v\<close>: a list gives its elements, a dict its keys, a string its characters.\<close>

fun py_iter :: "json \<Rightarrow> py_error + json list" where
  "py_iter (JList xs) = Inr xs"
| "py_iter (JObj d) = Inr (map (\<lambda>(k, v). JStr k) d)"
| "py_iter (JStr s) = Inr (map (\<lambda>c. JStr [c]) s)"
| "py_iter _ = Inl TypeError"

definition err_bind :: "'e + 'a \<Rightarrow> ('a \<Rightarrow> 'e + 'b) \<Rightarrow> 'e + 'b" where
  "err_bind m f = (case m of Inl e \<Rightarrow> Inl e | Inr x \<Rightarrow> f x)"

fun err_map :: "('a \<Rightarrow> 'e + 'b) \<Rightarrow> 'a list \<Rightarrow> 'e + 'b list" where
  "err_map f [] = Inr []"
| "err_map f (x # xs) =
     err_bind (f x) (\<lambda>y. err_bind (err_map f xs) (\<lambda>ys. Inr (y # ys)))"

text \<open>
  A \<open>datetime\<close> is a day number (the proleptic Gregorian ordinal) and the microseconds
  elapsed in that day. The difference of two of them is a \<open>timedelta\<close>, whose \<open>days\<close>
  attribute is the floor of the difference in days.
\<close>

record datetime =
  ordinal :: int
  microsecond_of_day :: int

definition valid_datetime :: "datetime \<Rightarrow> bool" where
  "valid_datetime t = (0 \<le> microsecond_of_day t \<and> microsecond_of_day t < 86400000000)"

definition timedelta_days :: "datetime \<Rightarrow> datetime \<Rightarrow> int" where
  "timedelta_days a b =
     ((ordinal a - ordinal b) * 86400000000 + (microsecond_of_day a - microsecond_of_day b))
       div 86400000000"

datatype http_outcome = RequestException string | HttpJson json

text \<open>
  What the code reads from outside the repository: the environment variable
  \<open>BLS_API_KEY\<close>, the clock, the library functions \<open>datetime.strptime\<close> and
  \<open>strftime\<close> for the format \<open>%Y-%m-%d\<close> (\<open>strptime\<close> gives the day number, or
  \<open>None\<close> where Python raises \<open>ValueError\<close>), Python's \<open>str\<close> on a JSON value, and the
  upstream service: the outcome of the n-th \<open>requests.post\<close> of the process for a payload
  (series ids, start year, end year, registration key).
\<close>

record env =
  api_key :: "string option"
  now :: datetime
  strptime :: "string \<Rightarrow> int option"
  strftime :: "datetime \<Rightarrow> string"
  current_year :: int
  py_str :: "json \<Rightarrow> string"
  upstream :: "nat \<Rightarrow> string list \<Rightarrow> string \<Rightarrow> string \<Rightarrow> string \<Rightarrow> http_outcome"

section \<open>Statistics store (bls\_job\_mapper.py)\<close>

text \<open>
  A row of the table \<open>bls_job_data\<close>, which is also the dictionary \<open>bls_data\<close> that
  \<open>fetch_bls_data\<close> assembles (then without \<open>id\<close>). A nullable column is an option;
  \<open>median_wage\<close> holds whatever \<open>latest_value\<close> was, \<open>JNull\<close> for \<open>None\<close>.
\<close>

record bls_data =
  row_id :: "nat option"
  occupation_code :: string
  job_title :: string
  standardized_title :: string
  job_category :: "string option"
  current_employment :: "int option"
  projected_employment :: "int option"
  percent_change :: "real option"
  annual_job_openings :: "int option"
  median_wage :: json
  last_updated :: string

text \<open>
  The module's \<open>engine\<close> is \<open>None\<close> when no database is configured. A configured
  database either fails every operation (\<open>Unreachable\<close>: the exception is caught by the
  caller) or holds the rows of the table.
\<close>

datatype database = Unreachable | Rows "bls_data list"

text \<open>\<open>ORDER BY last_updated DESC LIMIT 1\<close> over the rows of one code: the column is text.\<close>

fun latest_row :: "bls_data list \<Rightarrow> bls_data option" where
  "latest_row [] = None"
| "latest_row (r # rs) =
     (case latest_row rs of
        None \<Rightarrow> Some r
      | Some r' \<Rightarrow> if last_updated r < last_updated r' then Some r' else Some r)"

definition select_latest :: "string \<Rightarrow> bls_data list \<Rightarrow> bls_data option" where
  "select_latest code rows = latest_row (filter (\<lambda>r. occupation_code r = code) rows)"

definition get_bls_data_from_db ::
  "env \<Rightarrow> database option \<Rightarrow> string \<Rightarrow> bls_data option \<times> database option" where
  "get_bls_data_from_db ev engine code =
     (case engine of
        None \<Rightarrow> (None, engine)
      | Some Unreachable \<Rightarrow> (None, engine)
      | Some (Rows rows) \<Rightarrow>
          (case select_latest code rows of
             None \<Rightarrow> (None, engine)
           | Some data \<Rightarrow>
               (case strptime ev (last_updated data) of
                  None \<Rightarrow> (None, engine)
                | Some d \<Rightarrow>
                    (let days_since_update =
                           timedelta_days (now ev) \<lparr>ordinal = d, microsecond_of_day = 0\<rparr>
                     in if days_since_update < 90 then (Some data, engine)
                        else (None, engine)))))"

definition next_id :: "bls_data list \<Rightarrow> nat" where
  "next_id rows = Suc (fold max (map (\<lambda>r. case row_id r of None \<Rightarrow> 0 | Some i \<Rightarrow> i) rows) 0)"

definition save_bls_data_to_db ::
  "env \<Rightarrow> database option \<Rightarrow> bls_data \<Rightarrow> bool \<times> database option" where
  "save_bls_data_to_db ev engine data =
     (case engine of
        None \<Rightarrow> (False, engine)
      | Some Unreachable \<Rightarrow> (False, engine)
      | Some (Rows rows) \<Rightarrow>
          (case find (\<lambda>r. occupation_code r = occupation_code data) rows of
             Some row \<Rightarrow>
               (True, Some (Rows (map (\<lambda>r. if occupation_code r = occupation_code data
                                              then data\<lparr>row_id := row_id r\<rparr> else r) rows)))
           | None \<Rightarrow>
               (True, Some (Rows (rows @ [data\<lparr>row_id := Some (next_id rows)\<rparr>])))))"

section \<open>External statistics fetcher (bls\_connector.py)\<close>

text \<open>
  The mutable state of the process: the global \<open>JOB_TITLE_TO_SOC\<close>, the global
  \<open>_api_cache\<close>, the contents of the database behind \<open>engine\<close>, and the number of
  requests sent upstream so far.
\<close>

record state =
  title_to_soc :: "(string \<times> string) list"
  api_cache :: "string \<rightharpoonup> json"
  engine :: "database option"
  net_calls :: nat

definition join :: "string \<Rightarrow> string list \<Rightarrow> string" where
  "join sep xs = (case xs of [] \<Rightarrow> [] | y # ys \<Rightarrow> y @ concat (map (\<lambda>z. sep @ z) ys))"

definition cache_key :: "string list \<Rightarrow> string \<Rightarrow> string \<Rightarrow> string" where
  "cache_key series_ids start_year end_year =
     join '','' (sort series_ids) @ ''_'' @ start_year @ ''_'' @ end_year"

definition sample_item :: "string \<Rightarrow> string \<Rightarrow> json" where
  "sample_item year v =
     JObj [(''year'', JStr year), (''period'', JStr ''A01''), (''periodName'', JStr ''Annual''),
           (''value'', JStr v), (''footnotes'', JList [])]"

definition sample_response :: "string \<Rightarrow> json" where
  "sample_response series_id =
     JObj [(''status'', JStr ''success''),
           (''responseTime'', JNum 100),
           (''message'', JList []),
           (''Results'', JObj [(''series'', JList [
              JObj [(''seriesID'', JStr series_id),
                    (''data'', JList [sample_item ''2020'' ''120000'',
                                      sample_item ''2021'' ''125000'',
                                      sample_item ''2022'' ''130000'',
                                      sample_item ''2023'' ''135000'',
                                      sample_item ''2024'' ''140000''])]])])]"

text \<open>\<open>not api_key\<close> holds for an unset variable and for an empty one.\<close>

definition no_api_key :: "env \<Rightarrow> bool" where
  "no_api_key ev = (case api_key ev of None \<Rightarrow> True | Some k \<Rightarrow> k = [])"

definition get_bls_data ::
  "env \<Rightarrow> state \<Rightarrow> string list \<Rightarrow> string \<Rightarrow> string \<Rightarrow> (py_error + json) \<times> state" where
  "get_bls_data ev st series_ids start_year end_year =
     (case api_key ev of
        None \<Rightarrow>
          (case series_ids of
             [] \<Rightarrow> (Inl IndexError, st)
           | s # _ \<Rightarrow> (Inr (sample_response s), st))
      | Some k \<Rightarrow>
          if k = [] then
            (case series_ids of
               [] \<Rightarrow> (Inl IndexError, st)
             | s # _ \<Rightarrow> (Inr (sample_response s), st))
          else
            (let key = cache_key series_ids start_year end_year in
             case api_cache st key of
               Some cached \<Rightarrow> (Inr cached, st)
             | None \<Rightarrow>
                 (case upstream ev (net_calls st) series_ids start_year end_year k of
                    HttpJson data \<Rightarrow>
                      (Inr data, st\<lparr>api_cache := (api_cache st)(key \<mapsto> data),
                                     net_calls := Suc (net_calls st)\<rparr>)
                  | RequestException e \<Rightarrow>
                      (Inr (JObj [(''status'', JStr ''error''), (''message'', JStr e)]),
                       st\<lparr>net_calls := Suc (net_calls st)\<rparr>))))"

text \<open>
  The dictionaries returned by \<open>get_occupation_data\<close> and \<open>get_employment_projection\<close>:
  \<open>{"status": "error", "message": m}\<close>, or the success dictionary with its fields.
\<close>

datatype occupation_data =
    OccError string
  | OccSuccess string "json list" json

fun latest_value :: "occupation_data \<Rightarrow> json" where
  "latest_value (OccError m) = JNull"
| "latest_value (OccSuccess code recs v) = v"

definition series_records :: "json \<Rightarrow> py_error + json list" where
  "series_records series =
     err_bind (py_get series ''seriesID'' JNull) (\<lambda>series_id.
     err_bind (py_get series ''data'' (JList [])) (\<lambda>data.
     err_bind (py_iter data) (\<lambda>items.
       err_map (\<lambda>item.
         err_bind (py_get item ''year'' JNull) (\<lambda>y.
         err_bind (py_get item ''period'' JNull) (\<lambda>p.
         err_bind (py_get item ''value'' JNull) (\<lambda>v.
         err_bind (py_get item ''footnotes'' JNull) (\<lambda>f.
           Inr (JObj [(''series_id'', series_id), (''year'', y), (''period'', p),
                      (''value'', v), (''footnotes'', f)])))))) items)))"

definition parse_occupation_response :: "env \<Rightarrow> json \<Rightarrow> string \<Rightarrow> py_error + occupation_data" where
  "parse_occupation_response ev response_data occ_code =
     err_bind (py_get response_data ''status'' JNull) (\<lambda>status.
       if status \<noteq> JStr ''REQUEST_SUCCEEDED'' then
         err_bind (py_get response_data ''message'' (JStr ''Unknown error'')) (\<lambda>m.
           Inr (OccError (''BLS API request failed: '' @ py_str ev m)))
       else
         err_bind (py_get response_data ''Results'' (JObj [])) (\<lambda>res.
         err_bind (py_get res ''series'' (JList [])) (\<lambda>ser.
         err_bind (py_iter ser) (\<lambda>series_list.
         err_bind (err_map series_records series_list) (\<lambda>per_series.
           let results = concat per_series in
           case results of
             [] \<Rightarrow> Inr (OccError ''No data found for the requested occupation'')
           | first # _ \<Rightarrow>
               err_bind (py_get first ''value'' JNull) (\<lambda>v.
                 Inr (OccSuccess occ_code results v)))))))"

definition series_mapping :: "(string \<times> string) list" where
  "series_mapping =
     [(''15-1252'', ''OEU1025560000000015125201''),
      (''11-9111'', ''OEU1025560000000011911101'')]"

fun str_nat :: "nat \<Rightarrow> string" where
  "str_nat n =
     (if n < 10 then [''0123456789'' ! n]
      else str_nat (n div 10) @ [''0123456789'' ! (n mod 10)])"

definition str_int :: "int \<Rightarrow> string" where
  "str_int i = (if i < 0 then ''-'' @ str_nat (nat (- i)) else str_nat (nat i))"

definition get_occupation_data ::
  "env \<Rightarrow> state \<Rightarrow> string \<Rightarrow> (py_error + occupation_data) \<times> state" where
  "get_occupation_data ev st occ_code =
     (case map_of series_mapping occ_code of
        Some series_id \<Rightarrow>
          (let (r, st') = get_bls_data ev st [series_id]
                            (str_int (current_year ev - 5)) (str_int (current_year ev))
           in (err_bind r (\<lambda>data. parse_occupation_response ev data occ_code), st'))
      | None \<Rightarrow>
          (Inr (OccError (''No BLS series ID mapping found for occupation code '' @ occ_code)),
           st))"

definition soc_codes :: "(string \<times> string) list" where
  "soc_codes =
    [(''11-1011'', ''Chief Executives''),
         (''11-2011'', ''Advertising and Promotions Managers''),
         (''11-3031'', ''Financial Managers''),
         (''15-1252'', ''Software Developers''),
         (''15-1211'', ''Computer Systems Analysts''),
         (''15-1231'', ''Computer Network Support Specialists''),
         (''25-1011'', ''Business Teachers, Postsecondary''),
         (''25-2021'', ''Elementary School Teachers''),
         (''29-1051'', ''Pharmacists''),
         (''29-1141'', ''Registered Nurses''),
         (''41-3091'', ''Sales Representatives of Services''),
         (''43-4051'', ''Customer Service Representatives''),
         (''43-9021'', ''Data Entry Keyers''),
         (''53-3032'', ''Heavy and Tractor-Trailer Truck Drivers'')]"

definition search_occupations :: "string \<Rightarrow> (string \<times> string) list" where
  "search_occupations query =
     filter (\<lambda>(code, title). contains (lower title) (lower query)) soc_codes"

record projection =
  proj_current_employment :: int
  proj_projected_employment :: int
  proj_percent_change :: real
  proj_annual_job_openings :: int

definition projections :: "(string \<times> projection) list" where
  "projections =
     [(''15-1252'', \<lparr>proj_current_employment = 1365500, proj_projected_employment = 1572900,
                     proj_percent_change = 15.2, proj_annual_job_openings = 162900\<rparr>),
      (''29-1141'', \<lparr>proj_current_employment = 3130600, proj_projected_employment = 3458200,
                     proj_percent_change = 10.5, proj_annual_job_openings = 203200\<rparr>),
      (''43-9021'', \<lparr>proj_current_employment = 149900, proj_projected_employment = 112400,
                     proj_percent_change = - 25, proj_annual_job_openings = 14200\<rparr>)]"

datatype projection_data =
    ProjError string
  | ProjSuccess string projection

definition get_employment_projection :: "string \<Rightarrow> projection_data" where
  "get_employment_projection occ_code =
     (case map_of projections occ_code of
        Some p \<Rightarrow> ProjSuccess occ_code p
      | None \<Rightarrow>
          ProjError (''No employment projections found for occupation code '' @ occ_code))"

text \<open>\<open>projection_data.get("projections", {}).get(field)\<close>.\<close>

fun projection_field :: "projection_data \<Rightarrow> (projection \<Rightarrow> 'a) \<Rightarrow> 'a option" where
  "projection_field (ProjError m) f = None"
| "projection_field (ProjSuccess code p) f = Some (f p)"

section \<open>Resolver and pipeline (bls\_job\_mapper.py)\<close>

definition find_occupation_code ::
  "(string \<times> string) list \<Rightarrow> string
     \<Rightarrow> (string \<times> string \<times> string) \<times> (string \<times> string) list" where
  "find_occupation_code tbl title =
     (let std_title = standardize_job_title title in
      case map_of tbl std_title of
        Some soc_code \<Rightarrow> ((soc_code, title, get_job_category soc_code), tbl)
      | None \<Rightarrow>
          (case find (\<lambda>(key, code). contains std_title key \<or> contains key std_title) tbl of
             Some (key, code) \<Rightarrow> ((code, title, get_job_category code), tbl)
           | None \<Rightarrow>
               (case search_occupations title of
                  (soc_code, match_title) # _ \<Rightarrow>
                    ((soc_code, match_title, get_job_category soc_code),
                     dict_set tbl (standardize_job_title match_title) soc_code)
                | [] \<Rightarrow> ((''00-0000'', title, ''General''), tbl))))"

definition fetch_bls_data :: "env \<Rightarrow> state \<Rightarrow> string \<Rightarrow> (py_error + bls_data) \<times> state" where
  "fetch_bls_data ev st title =
     (let ((code, std_title, category), tbl) = find_occupation_code (title_to_soc st) title;
          st1 = st\<lparr>title_to_soc := tbl\<rparr>;
          (db_data, eng) = get_bls_data_from_db ev (engine st1) code
      in case db_data of
           Some data \<Rightarrow> (Inr data, st1)
         | None \<Rightarrow>
             (let (r, st2) = get_occupation_data ev st1 code in
              case r of
                Inl e \<Rightarrow> (Inl e, st2)
              | Inr occupation \<Rightarrow>
                  (let projection_data = get_employment_projection code;
                       data = \<lparr>row_id = None,
                               occupation_code = code,
                               job_title = title,
                               standardized_title = std_title,
                               job_category = Some category,
                               current_employment =
                                 projection_field projection_data proj_current_employment,
                               projected_employment =
                                 projection_field projection_data proj_projected_employment,
                               percent_change =
                                 projection_field projection_data proj_percent_change,
                               annual_job_openings =
                                 projection_field projection_data proj_annual_job_openings,
                               median_wage = latest_value occupation,
                               last_updated = strftime ev (now ev)\<rparr>;
                       (saved, eng') = save_bls_data_to_db ev (engine st2) data
                   in (Inr data, st2\<lparr>engine := eng'\<rparr>))))"

record job_result =
  res_job_title :: string
  res_occupation_code :: string
  res_job_category :: "string option"
  res_employment :: "int option"
  res_projected_employment :: "int option"
  res_employment_change_percent :: "real option"
  res_annual_job_openings :: "int option"
  res_median_wage :: json
  res_year_1_risk :: real
  res_year_5_risk :: real
  res_risk_category :: string
  res_risk_factors :: "string list"
  res_protective_factors :: "string list"
  res_analysis :: string
  res_last_updated :: string

definition get_complete_job_data ::
  "env \<Rightarrow> state \<Rightarrow> string \<Rightarrow> (py_error + job_result) \<times> state" where
  "get_complete_job_data ev st title =
     (let ((soc_code, std_title, category), tbl) = find_occupation_code (title_to_soc st) title;
          st1 = st\<lparr>title_to_soc := tbl\<rparr>;
          (r, st2) = fetch_bls_data ev st1 title
      in case r of
           Inl e \<Rightarrow> (Inl e, st2)
         | Inr data \<Rightarrow>
             (let cat = (if category \<noteq> ''General'' then Some category else job_category data);
                  risk = calculate_ai_risk title cat
              in (Inr \<lparr>res_job_title = standardized_title data,
                       res_occupation_code = soc_code,
                       res_job_category = cat,
                       res_employment = current_employment data,
                       res_projected_employment = projected_employment data,
                       res_employment_change_percent = percent_change data,
                       res_annual_job_openings = annual_job_openings data,
                       res_median_wage = median_wage data,
                       res_year_1_risk = year_1_risk risk,
                       res_year_5_risk = year_5_risk risk,
                       res_risk_category = risk_category risk,
                       res_risk_factors = risk_factors risk,
                       res_protective_factors = protective_factors risk,
                       res_analysis = analysis risk,
                       res_last_updated = last_updated data\<rparr>, st2)))"

text \<open>
  The statistics of a record that \<open>fetch_bls_data\<close> assembles when the occupation data
  is an error dictionary: no median wage, and the projection fields as the projection
  table gives them (\<open>None\<close> for a code the table does not list).
\<close>

definition nulled :: "string \<Rightarrow> bls_data \<Rightarrow> bool" where
  "nulled code data \<longleftrightarrow>
     median_wage data = JNull
   \<and> current_employment data
       = projection_field (get_employment_projection code) proj_current_employment
   \<and> projected_employment data
       = projection_field (get_employment_projection code) proj_projected_employment
   \<and> percent_change data
       = projection_field (get_employment_projection code) proj_percent_change
   \<and> annual_job_openings data
       = projection_field (get_employment_projection code) proj_annual_job_openings"

section \<open>Employment trend (job\_api\_integration\_database\_only.py)\<close>














section \<open>A concrete environment\<close>

text \<open>
  An environment without credentials on 3 November 2026 at 14:30 (day 739923), whose
  \<open>strptime\<close> knows the dates 6 August 2026 (89 days earlier) and 4 August 2026
  (91 days earlier), and a table with one row for each.
\<close>

definition example_env :: env where
  "example_env =
     \<lparr>api_key = None,
      now = \<lparr>ordinal = 739923, microsecond_of_day = 52200000000\<rparr>,
      strptime = (\<lambda>s. if s = ''2026-08-06'' then Some 739834
                        else if s = ''2026-08-04'' then Some 739832 else None),
      strftime = (\<lambda>t. ''2026-11-03''),
      current_year = 2026,
      py_str = (\<lambda>j. case j of JStr s \<Rightarrow> s | JList [] \<Rightarrow> ''[]'' | _ \<Rightarrow> ''?''),
      upstream = (\<lambda>n ids s e k. RequestException ''offline'')\<rparr>"

definition example_row :: "nat \<Rightarrow> string \<Rightarrow> string \<Rightarrow> bls_data" where
  "example_row i code date =
     \<lparr>row_id = Some i, occupation_code = code, job_title = ''job'',
      standardized_title = ''job'', job_category = None,
      current_employment = Some 1000, projected_employment = Some 1100,
      percent_change = Some 10, annual_job_openings = Some 50,
      median_wage = JNull, last_updated = date\<rparr>"

definition example_rows :: "bls_data list" where
  "example_rows = [example_row 1 ''15-1252'' ''2026-08-06'',
                   example_row 2 ''29-1141'' ''2026-08-04'']"

text \<open>
  The state of a process that has just started without a database, and an environment
  with a credential whose upstream answers every request, naming in the answer the
  number of the request.
\<close>

definition initial_state :: state where
  "initial_state =
     \<lparr>title_to_soc = JOB_TITLE_TO_SOC, api_cache = Map.empty, engine = None, net_calls = 0\<rparr>"


section \<open>Properties of the title normaliser\<close>














section \<open>Properties of rounding to double\<close>














section \<open>Risk scorer: default pair and tiers\<close>

text \<open>
  Claim C2, as stated, fails. A category outside the fixed table gets the pair
  (35.0, 55.0), but the tier computed from 55.0 is \<open>High\<close>, not \<open>Moderate\<close>:
  \<open>General\<close>, the category of every unresolved title, is such a category.
\<close>

theorem calculate_ai_risk_default_tier_not_moderate:
  "map_of category_risk_scores ''General'' = None
   \<and> year_1_risk (calculate_ai_risk ''Astronaut'' (Some ''General'')) = 35
   \<and> year_5_risk (calculate_ai_risk ''Astronaut'' (Some ''General'')) = 55
   \<and> risk_category (calculate_ai_risk ''Astronaut'' (Some ''General'')) \<noteq> ''Moderate''"
  by (simp add: calculate_ai_risk_def dict_get_str_def category_risk_scores_def
        default_risk_def risk_category_of_def Let_def)

text \<open>
  Claim C2, amended: for every job category that is not a key of the category-to-risk
  table, \<open>calculate_ai_risk\<close> returns \<open>year_1_risk = 35.0\<close> and \<open>year_5_risk = 55.0\<close>,
  and the resulting tier is \<open>High\<close>.
\<close>

theorem calculate_ai_risk_default:
  assumes "map_of category_risk_scores category = None"
  shows "year_1_risk (calculate_ai_risk title (Some category)) = 35
       \<and> year_5_risk (calculate_ai_risk title (Some category)) = 55
       \<and> risk_category (calculate_ai_risk title (Some category)) = ''High''"
  using assms
  by (simp add: calculate_ai_risk_def dict_get_str_def default_risk_def
        risk_category_of_def Let_def)

theorem calculate_ai_risk_default_witness:
  "map_of category_risk_scores ''General'' = None
   \<and> year_1_risk (calculate_ai_risk ''Astronaut'' (Some ''General'')) = 35
   \<and> year_5_risk (calculate_ai_risk ''Astronaut'' (Some ''General'')) = 55
   \<and> risk_category (calculate_ai_risk ''Astronaut'' (Some ''General'')) = ''High''"
proof -
  have absent: "map_of category_risk_scores ''General'' = None"
    by (simp add: category_risk_scores_def)
  from calculate_ai_risk_default[OF absent, of "''Astronaut''"] absent show ?thesis by simp
qed

text \<open>
  Claim C3: for every job category the tier returned by \<open>calculate_ai_risk\<close> is a
  function of the 5-year risk alone, with half-open intervals: below 30 it is \<open>Low\<close>,
  from 30 and below 50 \<open>Moderate\<close>, from 50 and below 70 \<open>High\<close>, from 70 on
  \<open>Very High\<close>; so 29.999 gives \<open>Low\<close>, 30.0 and 49.999 give \<open>Moderate\<close>, 50.0 gives
  \<open>High\<close> and 70.0 gives \<open>Very High\<close>.
\<close>

theorem risk_tier_boundaries:
  "risk_category (calculate_ai_risk title category)
     = risk_category_of (year_5_risk (calculate_ai_risk title category))
   \<and> risk_category_of y5 =
       (if y5 < 30 then ''Low'' else if y5 < 50 then ''Moderate''
        else if y5 < 70 then ''High'' else ''Very High'')
   \<and> risk_category_of 29.999 = ''Low''
   \<and> risk_category_of 30.0 = ''Moderate''
   \<and> risk_category_of 49.999 = ''Moderate''
   \<and> risk_category_of 50.0 = ''High''
   \<and> risk_category_of 70.0 = ''Very High''"
proof -
  have "risk_category (calculate_ai_risk title category)
          = risk_category_of (year_5_risk (calculate_ai_risk title category))"
    by (simp add: calculate_ai_risk_def Let_def split: prod.splits)
  then show ?thesis by (simp add: risk_category_of_def)
qed

theorem risk_tier_boundaries_witness:
  "year_5_risk (calculate_ai_risk ''Cashier'' (Some ''Sales and Related'')) = 65
   \<and> risk_category (calculate_ai_risk ''Cashier'' (Some ''Sales and Related'')) = ''High''"
proof -
  have y: "year_5_risk (calculate_ai_risk ''Cashier'' (Some ''Sales and Related'')) = 65"
    by (simp add: calculate_ai_risk_def dict_get_str_def category_risk_scores_def Let_def)
  from risk_tier_boundaries[of "''Cashier''" "Some ''Sales and Related''" 65] y
  show ?thesis by simp
qed

section \<open>Title normaliser: idempotence and the single suffix\<close>

lemmas norm_eval = standardize_job_title_def suffixes_def lower_def lower_char_def strip_def
  is_space_def endswith_def







section \<open>Statistics store: the 90-day freshness window\<close>

lemma timedelta_days_midnight:
  assumes "valid_datetime t"
  shows "timedelta_days t \<lparr>ordinal = d, microsecond_of_day = 0\<rparr> = ordinal t - d"
proof -
  from assms have "0 \<le> microsecond_of_day t" "microsecond_of_day t < 86400000000"
    by (simp_all add: valid_datetime_def)
  then have "((ordinal t - d) * 86400000000 + microsecond_of_day t) div 86400000000 = ordinal t - d"
    by (simp add: div_pos_pos_trivial)
  then show ?thesis by (simp add: timedelta_days_def)
qed

lemma latest_row_None: "latest_row rs = None \<longleftrightarrow> rs = []"
  by (cases rs) (auto split: option.splits)

lemma latest_row_Some:
  "latest_row rs = Some r \<Longrightarrow>
     r \<in> set rs \<and> (\<forall>r' \<in> set rs. last_updated r' \<le> last_updated r)"
proof (induction rs arbitrary: r)
  case Nil then show ?case by simp
next
  case (Cons a rs)
  show ?case
  proof (cases "latest_row rs")
    case None
    then have "rs = []" by (simp add: latest_row_None)
    with Cons.prems None show ?thesis by simp
  next
    case (Some m)
    from Cons.IH[OF Some] have m: "m \<in> set rs" "\<forall>r' \<in> set rs. last_updated r' \<le> last_updated m"
      by simp_all
    show ?thesis
    proof (cases "last_updated a < last_updated m")
      case True
      with Some Cons.prems have "r = m" by simp
      with m True show ?thesis by auto
    next
      case False
      with Some Cons.prems have "r = a" by simp
      with m False show ?thesis by (auto intro: order_trans)
    qed
  qed
qed

lemma select_latest_None:
  "select_latest code rows = None \<longleftrightarrow> \<not> (\<exists>r \<in> set rows. occupation_code r = code)"
  by (auto simp: select_latest_def latest_row_None filter_empty_conv)

lemma select_latest_Some:
  assumes "select_latest code rows = Some r"
  shows "r \<in> set rows \<and> occupation_code r = code
       \<and> (\<forall>r' \<in> set rows. occupation_code r' = code \<longrightarrow> last_updated r' \<le> last_updated r)"
  using latest_row_Some[OF assms[unfolded select_latest_def]] by auto

text \<open>
  Claim C1: for every occupation code, \<open>get_bls_data_from_db\<close> returns nothing when the
  table has no row for the code; otherwise it takes the row with the greatest
  \<open>last_updated\<close> and returns nothing when today's date is 90 days or more after that date
  (the table is left as it was: the stale row is not deleted) and the row when it is
  less than 90 days after; 91 days is a miss and 89 days a hit.
\<close>

theorem get_bls_data_from_db_freshness:
  assumes "valid_datetime (now ev)"
  shows "(select_latest code rows = None \<longleftrightarrow> \<not> (\<exists>r \<in> set rows. occupation_code r = code))
   \<and> (select_latest code rows = None \<longrightarrow>
         get_bls_data_from_db ev (Some (Rows rows)) code = (None, Some (Rows rows)))
   \<and> (\<forall>r d. select_latest code rows = Some r \<and> strptime ev (last_updated r) = Some d \<longrightarrow>
         r \<in> set rows \<and> occupation_code r = code
       \<and> (\<forall>r' \<in> set rows. occupation_code r' = code \<longrightarrow> last_updated r' \<le> last_updated r)
       \<and> (90 \<le> ordinal (now ev) - d \<longrightarrow>
             get_bls_data_from_db ev (Some (Rows rows)) code = (None, Some (Rows rows)))
       \<and> (ordinal (now ev) - d < 90 \<longrightarrow>
             get_bls_data_from_db ev (Some (Rows rows)) code = (Some r, Some (Rows rows)))
       \<and> (ordinal (now ev) - d = 91 \<longrightarrow>
             fst (get_bls_data_from_db ev (Some (Rows rows)) code) = None)
       \<and> (ordinal (now ev) - d = 89 \<longrightarrow>
             fst (get_bls_data_from_db ev (Some (Rows rows)) code) = Some r))"
proof -
  note td = timedelta_days_midnight[OF assms]
  have a: "select_latest code rows = None \<longleftrightarrow> \<not> (\<exists>r \<in> set rows. occupation_code r = code)"
    by (rule select_latest_None)
  have b: "select_latest code rows = None \<longrightarrow>
         get_bls_data_from_db ev (Some (Rows rows)) code = (None, Some (Rows rows))"
    by (simp add: get_bls_data_from_db_def)
  have c: "\<forall>r d. select_latest code rows = Some r \<and> strptime ev (last_updated r) = Some d \<longrightarrow>
         r \<in> set rows \<and> occupation_code r = code
       \<and> (\<forall>r' \<in> set rows. occupation_code r' = code \<longrightarrow> last_updated r' \<le> last_updated r)
       \<and> (90 \<le> ordinal (now ev) - d \<longrightarrow>
             get_bls_data_from_db ev (Some (Rows rows)) code = (None, Some (Rows rows)))
       \<and> (ordinal (now ev) - d < 90 \<longrightarrow>
             get_bls_data_from_db ev (Some (Rows rows)) code = (Some r, Some (Rows rows)))
       \<and> (ordinal (now ev) - d = 91 \<longrightarrow>
             fst (get_bls_data_from_db ev (Some (Rows rows)) code) = None)
       \<and> (ordinal (now ev) - d = 89 \<longrightarrow>
             fst (get_bls_data_from_db ev (Some (Rows rows)) code) = Some r)"
  proof (intro allI impI)
    fix r d
    assume h: "select_latest code rows = Some r \<and> strptime ev (last_updated r) = Some d"
    then have sel: "select_latest code rows = Some r" and p: "strptime ev (last_updated r) = Some d"
      by simp_all
    have g: "get_bls_data_from_db ev (Some (Rows rows)) code
               = (if ordinal (now ev) - d < 90 then (Some r, Some (Rows rows))
                  else (None, Some (Rows rows)))"
      by (simp add: get_bls_data_from_db_def sel p td Let_def)
    from select_latest_Some[OF sel] g
    show "r \<in> set rows \<and> occupation_code r = code
       \<and> (\<forall>r' \<in> set rows. occupation_code r' = code \<longrightarrow> last_updated r' \<le> last_updated r)
       \<and> (90 \<le> ordinal (now ev) - d \<longrightarrow>
             get_bls_data_from_db ev (Some (Rows rows)) code = (None, Some (Rows rows)))
       \<and> (ordinal (now ev) - d < 90 \<longrightarrow>
             get_bls_data_from_db ev (Some (Rows rows)) code = (Some r, Some (Rows rows)))
       \<and> (ordinal (now ev) - d = 91 \<longrightarrow>
             fst (get_bls_data_from_db ev (Some (Rows rows)) code) = None)
       \<and> (ordinal (now ev) - d = 89 \<longrightarrow>
             fst (get_bls_data_from_db ev (Some (Rows rows)) code) = Some r)"
      by simp
  qed
  from a b c show ?thesis by blast
qed

theorem get_bls_data_from_db_freshness_witness:
  "valid_datetime (now example_env)
   \<and> get_bls_data_from_db example_env (Some (Rows example_rows)) ''15-1252''
       = (Some (example_row 1 ''15-1252'' ''2026-08-06''), Some (Rows example_rows))
   \<and> get_bls_data_from_db example_env (Some (Rows example_rows)) ''29-1141''
       = (None, Some (Rows example_rows))
   \<and> get_bls_data_from_db example_env (Some (Rows example_rows)) ''11-1011''
       = (None, Some (Rows example_rows))"
proof -
  have v: "valid_datetime (now example_env)"
    by (simp add: example_env_def valid_datetime_def)
  have s1: "select_latest ''15-1252'' example_rows = Some (example_row 1 ''15-1252'' ''2026-08-06'')
            \<and> strptime example_env (last_updated (example_row 1 ''15-1252'' ''2026-08-06''))
                = Some 739834"
    by (simp add: select_latest_def example_rows_def example_row_def example_env_def)
  have s2: "select_latest ''29-1141'' example_rows = Some (example_row 2 ''29-1141'' ''2026-08-04'')
            \<and> strptime example_env (last_updated (example_row 2 ''29-1141'' ''2026-08-04''))
                = Some 739832"
    by (simp add: select_latest_def example_rows_def example_row_def example_env_def)
  have s3: "select_latest ''11-1011'' example_rows = None"
    by (simp add: select_latest_def example_rows_def example_row_def)
  have n: "ordinal (now example_env) = 739923" by (simp add: example_env_def)
  from get_bls_data_from_db_freshness[OF v, of "''15-1252''" example_rows] s1 n
  have h1: "get_bls_data_from_db example_env (Some (Rows example_rows)) ''15-1252''
              = (Some (example_row 1 ''15-1252'' ''2026-08-06''), Some (Rows example_rows))"
    by simp
  from get_bls_data_from_db_freshness[OF v, of "''29-1141''" example_rows] s2 n
  have h2: "get_bls_data_from_db example_env (Some (Rows example_rows)) ''29-1141''
              = (None, Some (Rows example_rows))"
    by simp
  from get_bls_data_from_db_freshness[OF v, of "''11-1011''" example_rows] s3
  have h3: "get_bls_data_from_db example_env (Some (Rows example_rows)) ''11-1011''
              = (None, Some (Rows example_rows))"
    by simp
  from v h1 h2 h3 show ?thesis by simp
qed


section \<open>Resolver and fetcher: unmapped occupation codes\<close>

lemma map_of_dict_set: "map_of (dict_set d k v) = (map_of d)(k \<mapsto> v)"
  by (induction d) (auto simp: fun_eq_iff)

lemma find_dict_set:
  assumes "find P d = None" "\<And>v'. P (k, v') = P (k, v)"
  shows "find P (dict_set d k v) = (if P (k, v) then Some (k, v) else None)"
  using assms(1)
proof (induction d)
  case Nil then show ?case by simp
next
  case (Cons a d)
  obtain k' v' where a: "a = (k', v')" by (cases a)
  from Cons.prems a have na: "\<not> P (k', v')" and nd: "find P d = None"
    by (auto split: if_splits)
  show ?case
  proof (cases "k' = k")
    case True
    with na assms(2)[of v'] have "\<not> P (k, v)" by simp
    with True a nd show ?thesis by simp
  next
    case False
    with a na Cons.IH[OF nd] show ?thesis by simp
  qed
qed

lemma find_occupation_code_stable:
  "fst (fst (find_occupation_code (snd (find_occupation_code tbl t)) t))
     = fst (fst (find_occupation_code tbl t))"
proof -
  define std where "std = standardize_job_title t"
  define P where "P = (\<lambda>(key :: string, code :: string). contains std key \<or> contains key std)"
  have foc: "\<And>tb. find_occupation_code tb t =
      (case map_of tb std of
        Some soc_code \<Rightarrow> ((soc_code, t, get_job_category soc_code), tb)
      | None \<Rightarrow>
          (case find P tb of
             Some (key, code) \<Rightarrow> ((code, t, get_job_category code), tb)
           | None \<Rightarrow>
               (case search_occupations t of
                  (soc_code, match_title) # _ \<Rightarrow>
                    ((soc_code, match_title, get_job_category soc_code),
                     dict_set tb (standardize_job_title match_title) soc_code)
                | [] \<Rightarrow> ((''00-0000'', t, ''General''), tb))))"
    unfolding find_occupation_code_def std_def P_def Let_def by (rule refl)
  show ?thesis
  proof (cases "map_of tbl std")
    case (Some c)
    then show ?thesis by (simp add: foc)
  next
    case None
    show ?thesis
    proof (cases "find P tbl")
      case (Some kc)
      with None show ?thesis by (simp add: foc split: prod.splits)
    next
      case fnone: None
      show ?thesis
      proof (cases "search_occupations t")
        case Nil
        with None fnone show ?thesis by (simp add: foc)
      next
        case (Cons m ms)
        obtain soc mt where m: "m = (soc, mt)" by (cases m)
        define tbl' where "tbl' = dict_set tbl (standardize_job_title mt) soc"
        have first: "find_occupation_code tbl t = ((soc, mt, get_job_category soc), tbl')"
          using None fnone Cons m by (simp add: foc tbl'_def)
        have pk: "\<And>v'. P (standardize_job_title mt, v') = P (standardize_job_title mt, soc)"
          by (simp add: P_def)
        have f': "find P tbl' = (if P (standardize_job_title mt, soc)
                                 then Some (standardize_job_title mt, soc) else None)"
          unfolding tbl'_def by (rule find_dict_set[OF fnone pk])
        have m': "map_of tbl' std = (if std = standardize_job_title mt then Some soc else None)"
          using None by (simp add: tbl'_def map_of_dict_set)
        have "fst (fst (find_occupation_code tbl' t)) = soc"
          using m' f' Cons m by (simp add: foc)
        with first show ?thesis by simp
      qed
    qed
  qed
qed

lemma get_occupation_data_unmapped:
  assumes "map_of series_mapping code = None"
  shows "get_occupation_data ev st code
           = (Inr (OccError (''No BLS series ID mapping found for occupation code '' @ code)), st)"
  using assms by (simp add: get_occupation_data_def)

lemma get_bls_data_from_db_engine: "snd (get_bls_data_from_db ev eng code) = eng"
  by (simp add: get_bls_data_from_db_def Let_def split: option.splits database.splits)

lemma get_bls_data_from_db_code:
  "fst (get_bls_data_from_db ev eng code) = Some row \<Longrightarrow> occupation_code row = code"
  using select_latest_Some
  by (auto simp: get_bls_data_from_db_def Let_def split: option.splits database.splits if_splits)

lemma fetch_bls_data_miss:
  assumes r': "find_occupation_code (title_to_soc st) title = ((code, std, cat), tbl)"
      and u: "map_of series_mapping code = None"
      and db: "get_bls_data_from_db ev (engine st) code = (None, engine st)"
  shows "\<exists>data st'. fetch_bls_data ev st title = (Inr data, st')
           \<and> occupation_code data = code \<and> nulled code data"
proof -
  have "fetch_bls_data ev st title =
     (let data = \<lparr>row_id = None,
                               occupation_code = code,
                               job_title = title,
                               standardized_title = std,
                               job_category = Some cat,
                               current_employment =
                                 projection_field (get_employment_projection code) proj_current_employment,
                               projected_employment =
                                 projection_field (get_employment_projection code) proj_projected_employment,
                               percent_change =
                                 projection_field (get_employment_projection code) proj_percent_change,
                               annual_job_openings =
                                 projection_field (get_employment_projection code) proj_annual_job_openings,
                               median_wage = JNull,
                               last_updated = strftime ev (now ev)\<rparr>
      in (Inr data, st\<lparr>title_to_soc := tbl,
                        engine := snd (save_bls_data_to_db ev (engine st) data)\<rparr>))"
    unfolding fetch_bls_data_def r' Let_def
    by (simp add: db get_occupation_data_unmapped[OF u] split_beta)
  then show ?thesis by (simp add: Let_def nulled_def)
qed

lemma fetch_bls_data_hit:
  assumes r': "find_occupation_code (title_to_soc st) title = ((code, std, cat), tbl)"
      and db: "get_bls_data_from_db ev (engine st) code = (Some row, engine st)"
  shows "fetch_bls_data ev st title = (Inr row, st\<lparr>title_to_soc := tbl\<rparr>)"
  unfolding fetch_bls_data_def r' Let_def by (simp add: db)

lemma fetch_bls_data_unmapped:
  assumes r: "fst (fst (find_occupation_code (title_to_soc st) title)) = code"
      and u: "map_of series_mapping code = None"
  shows "\<exists>data st'. fetch_bls_data ev st title = (Inr data, st')
           \<and> occupation_code data = code
           \<and> (\<forall>row. fst (get_bls_data_from_db ev (engine st) code) = Some row \<longrightarrow> data = row)
           \<and> (fst (get_bls_data_from_db ev (engine st) code) = None \<longrightarrow> nulled code data)"
proof -
  obtain std cat tbl where
    r': "find_occupation_code (title_to_soc st) title = ((code, std, cat), tbl)"
    using r by (cases "find_occupation_code (title_to_soc st) title") auto
  show ?thesis
  proof (cases "fst (get_bls_data_from_db ev (engine st) code)")
    case None
    then have db: "get_bls_data_from_db ev (engine st) code = (None, engine st)"
      using get_bls_data_from_db_engine[of ev "engine st" code] by (simp add: prod_eq_iff)
    from fetch_bls_data_miss[OF r' u db] None show ?thesis by auto
  next
    case (Some row)
    then have db: "get_bls_data_from_db ev (engine st) code = (Some row, engine st)"
      using get_bls_data_from_db_engine[of ev "engine st" code] by (simp add: prod_eq_iff)
    from fetch_bls_data_hit[OF r' db] get_bls_data_from_db_code[OF Some] Some
    show ?thesis by simp
  qed
qed

lemma get_complete_job_data_Inr:
  assumes r': "find_occupation_code (title_to_soc st) title = ((code, std, cat), tbl)"
      and f: "fetch_bls_data ev (st\<lparr>title_to_soc := tbl\<rparr>) title = (Inr data, st')"
  shows "\<exists>res. get_complete_job_data ev st title = (Inr res, st')
           \<and> res_occupation_code res = code
           \<and> res_median_wage res = median_wage data
           \<and> res_employment res = current_employment data
           \<and> res_projected_employment res = projected_employment data
           \<and> res_employment_change_percent res = percent_change data
           \<and> res_annual_job_openings res = annual_job_openings data"
  unfolding get_complete_job_data_def r' Let_def by (simp add: f)

section \<open>Fetcher: memoisation, unmapped codes and the offline sample\<close>

lemma no_api_key_cases:
  "no_api_key ev \<longleftrightarrow> api_key ev = None \<or> api_key ev = Some []"
  by (auto simp: no_api_key_def split: option.splits)

lemma get_bls_data_no_key:
  assumes "no_api_key ev"
  shows "get_bls_data ev st series_ids s e =
           (case series_ids of [] \<Rightarrow> (Inl IndexError, st)
            | sid # rest \<Rightarrow> (Inr (sample_response sid), st))"
  using assms by (auto simp: no_api_key_cases get_bls_data_def)



lemma get_complete_job_data_unmapped:
  assumes r: "fst (fst (find_occupation_code (title_to_soc st) title)) = code"
      and u: "map_of series_mapping code = None"
  shows "\<exists>res st'. get_complete_job_data ev st title = (Inr res, st')
           \<and> res_occupation_code res = code
           \<and> (fst (get_bls_data_from_db ev (engine st) code) = None \<longrightarrow>
                res_median_wage res = JNull
              \<and> res_employment res
                  = projection_field (get_employment_projection code) proj_current_employment
              \<and> res_projected_employment res
                  = projection_field (get_employment_projection code) proj_projected_employment
              \<and> res_employment_change_percent res
                  = projection_field (get_employment_projection code) proj_percent_change
              \<and> res_annual_job_openings res
                  = projection_field (get_employment_projection code) proj_annual_job_openings)"
proof -
  obtain std cat tbl where
    r': "find_occupation_code (title_to_soc st) title = ((code, std, cat), tbl)"
    using r by (cases "find_occupation_code (title_to_soc st) title") auto
  define st1 where "st1 = st\<lparr>title_to_soc := tbl\<rparr>"
  have "fst (fst (find_occupation_code (title_to_soc st1) title)) = code"
    using find_occupation_code_stable[of "title_to_soc st" title] r' by (simp add: st1_def)
  from fetch_bls_data_unmapped[OF this u, of ev]
  obtain data st' where
    f: "fetch_bls_data ev st1 title = (Inr data, st')"
    and n: "fst (get_bls_data_from_db ev (engine st1) code) = None \<longrightarrow> nulled code data"
    by auto
  have e: "engine st1 = engine st" by (simp add: st1_def)
  from get_complete_job_data_Inr[OF r' f[unfolded st1_def]]
  obtain res where g: "get_complete_job_data ev st title = (Inr res, st')"
    and c: "res_occupation_code res = code"
    and m: "res_median_wage res = median_wage data"
           "res_employment res = current_employment data"
           "res_projected_employment res = projected_employment data"
           "res_employment_change_percent res = percent_change data"
           "res_annual_job_openings res = annual_job_openings data"
    by auto
  from n e have "fst (get_bls_data_from_db ev (engine st) code) = None \<longrightarrow> nulled code data"
    by simp
  with g c m show ?thesis by (simp add: nulled_def)
qed



text \<open>
  Claim C8: for every occupation code that the series table does not list,
  \<open>get_occupation_data\<close> returns the error dictionary naming the code, raises nothing and
  sends nothing upstream; and for every title that resolves to such a code,
  \<open>fetch_bls_data\<close> and \<open>get_complete_job_data\<close> still return their structure: on a
  store miss its median wage is \<open>None\<close> and its employment fields are what the projection
  table gives, all \<open>None\<close> for a code missing there too.
\<close>

theorem unmapped_code_labelled_error:
  assumes "map_of series_mapping code = None"
  shows "get_occupation_data ev st code
           = (Inr (OccError (''No BLS series ID mapping found for occupation code '' @ code)), st)
       \<and> (fst (fst (find_occupation_code (title_to_soc st) title)) = code \<longrightarrow>
            (\<exists>data st'. fetch_bls_data ev st title = (Inr data, st')
                \<and> occupation_code data = code
                \<and> (fst (get_bls_data_from_db ev (engine st) code) = None \<longrightarrow>
                     nulled code data))
          \<and> (\<exists>res st'. get_complete_job_data ev st title = (Inr res, st')
                \<and> res_occupation_code res = code
                \<and> (fst (get_bls_data_from_db ev (engine st) code) = None \<longrightarrow>
                     res_median_wage res = JNull
                   \<and> res_employment res
                       = projection_field (get_employment_projection code)
                           proj_current_employment
                   \<and> res_projected_employment res
                       = projection_field (get_employment_projection code)
                           proj_projected_employment
                   \<and> res_employment_change_percent res
                       = projection_field (get_employment_projection code)
                           proj_percent_change
                   \<and> res_annual_job_openings res
                       = projection_field (get_employment_projection code)
                           proj_annual_job_openings)))
       \<and> (map_of projections code = None \<longrightarrow>
            projection_field (get_employment_projection code) proj_current_employment = None
          \<and> projection_field (get_employment_projection code) proj_projected_employment = None
          \<and> projection_field (get_employment_projection code) proj_percent_change = None
          \<and> projection_field (get_employment_projection code) proj_annual_job_openings = None)"
proof -
  have a: "get_occupation_data ev st code
           = (Inr (OccError (''No BLS series ID mapping found for occupation code '' @ code)), st)"
    by (rule get_occupation_data_unmapped[OF assms])
  have b: "fst (fst (find_occupation_code (title_to_soc st) title)) = code \<longrightarrow>
            (\<exists>data st'. fetch_bls_data ev st title = (Inr data, st')
                \<and> occupation_code data = code
                \<and> (fst (get_bls_data_from_db ev (engine st) code) = None \<longrightarrow>
                     nulled code data))"
  proof
    assume r: "fst (fst (find_occupation_code (title_to_soc st) title)) = code"
    from fetch_bls_data_unmapped[OF r assms, of ev]
    show "\<exists>data st'. fetch_bls_data ev st title = (Inr data, st')
                \<and> occupation_code data = code
                \<and> (fst (get_bls_data_from_db ev (engine st) code) = None \<longrightarrow>
                     nulled code data)"
      by auto
  qed
  have c: "map_of projections code = None \<longrightarrow>
            projection_field (get_employment_projection code) proj_current_employment = None
          \<and> projection_field (get_employment_projection code) proj_projected_employment = None
          \<and> projection_field (get_employment_projection code) proj_percent_change = None
          \<and> projection_field (get_employment_projection code) proj_annual_job_openings = None"
    by (simp add: get_employment_projection_def)
  from a b c get_complete_job_data_unmapped[OF _ assms, of st title ev]
  show ?thesis by (intro conjI impI) simp_all
qed

theorem unmapped_code_labelled_error_witness:
  "map_of series_mapping ''29-1141'' = None
   \<and> fst (fst (find_occupation_code (title_to_soc initial_state) ''Registered Nurse'')) = ''29-1141''
   \<and> get_occupation_data example_env initial_state ''29-1141''
       = (Inr (OccError ''No BLS series ID mapping found for occupation code 29-1141''),
          initial_state)
   \<and> (\<exists>res st'. get_complete_job_data example_env initial_state ''Registered Nurse''
                    = (Inr res, st')
          \<and> res_occupation_code res = ''29-1141''
          \<and> res_median_wage res = JNull
          \<and> res_employment res = Some 3130600)"
proof -
  have u: "map_of series_mapping ''29-1141'' = None" by (simp add: series_mapping_def)
  have n: "standardize_job_title ''Registered Nurse'' = ''registered nurse''"
    by (simp add: norm_eval)
  have m: "map_of JOB_TITLE_TO_SOC ''registered nurse'' = Some ''29-1141''"
    by (simp add: JOB_TITLE_TO_SOC_def)
  have r: "fst (fst (find_occupation_code (title_to_soc initial_state) ''Registered Nurse''))
             = ''29-1141''"
    by (simp add: find_occupation_code_def initial_state_def n m)
  have miss: "fst (get_bls_data_from_db example_env (engine initial_state) ''29-1141'') = None"
    by (simp add: get_bls_data_from_db_def initial_state_def)
  have p: "projection_field (get_employment_projection ''29-1141'') proj_current_employment
             = Some 3130600"
    by (simp add: get_employment_projection_def projections_def)
  from unmapped_code_labelled_error[OF u, of example_env initial_state "''Registered Nurse''"]
       u r miss p
  show ?thesis by auto
qed

text \<open>
  Claim C9 is what the sample path of \<open>get_bls_data\<close> is written for, and the code
  misses it: without a credential \<open>get_bls_data\<close> answers with the sample series, whose
  \<open>status\<close> is \<open>success\<close>, while \<open>parse_occupation_response\<close> accepts only
  \<open>REQUEST_SUCCEEDED\<close>. So \<open>get_occupation_data\<close> for the mapped code \<open>15-1252\<close> returns
  an error dictionary whose message is the string of the sample's empty \<open>message\<close> list.
\<close>

theorem get_occupation_data_rejects_sample:
  assumes "no_api_key ev"
  shows "get_bls_data ev st [''OEU1025560000000015125201''] s e
           = (Inr (sample_response ''OEU1025560000000015125201''), st)
       \<and> py_get (sample_response ''OEU1025560000000015125201'') ''status'' JNull
           = Inr (JStr ''success'')
       \<and> get_occupation_data ev st ''15-1252''
           = (Inr (OccError (''BLS API request failed: '' @ py_str ev (JList []))), st)"
  by (simp add: get_bls_data_no_key[OF assms] get_occupation_data_def series_mapping_def
        parse_occupation_response_def sample_response_def err_bind_def)

theorem get_occupation_data_rejects_sample_witness:
  "no_api_key example_env
   \<and> get_occupation_data example_env initial_state ''15-1252''
       = (Inr (OccError ''BLS API request failed: []''), initial_state)"
proof -
  have k: "no_api_key example_env" by (simp add: no_api_key_def example_env_def)
  have p: "py_str example_env (JList []) = ''[]''" by (simp add: example_env_def)
  from get_occupation_data_rejects_sample[OF k, of initial_state] k p show ?thesis by simp
qed

text \<open>
  Claim C10: without a credential, \<open>get_bls_data\<close> raises \<open>IndexError\<close> exactly when the
  list of series ids is empty (the sample reads \<open>series_ids[0]\<close>); for a non-empty list it
  returns the sample series labelled with the first id, and the state is untouched.
\<close>

theorem get_bls_data_sample_index_error:
  assumes "no_api_key ev"
  shows "(fst (get_bls_data ev st series_ids s e) = Inl IndexError \<longleftrightarrow> series_ids = [])
       \<and> get_bls_data ev st [] s e = (Inl IndexError, st)
       \<and> (\<forall>sid rest. series_ids = sid # rest \<longrightarrow>
             get_bls_data ev st series_ids s e = (Inr (sample_response sid), st))"
  by (cases series_ids) (simp_all add: get_bls_data_no_key[OF assms])

theorem get_bls_data_sample_index_error_witness:
  "no_api_key example_env
   \<and> get_bls_data example_env initial_state [] ''2021'' ''2026''
       = (Inl IndexError, initial_state)
   \<and> get_bls_data example_env initial_state [''LAUCN040010000000005''] ''2020'' ''2020''
       = (Inr (sample_response ''LAUCN040010000000005''), initial_state)"
proof -
  have k: "no_api_key example_env" by (simp add: no_api_key_def example_env_def)
  from get_bls_data_sample_index_error[OF k, of initial_state "[]" "''2021''" "''2026''"]
       get_bls_data_sample_index_error[OF k, of initial_state "[''LAUCN040010000000005'']"
         "''2020''" "''2020''"] k
  show ?thesis by simp
qed

section \<open>Employment trend: what the interpolation computes\<close>























end
